theory Spec2Isabelle
  imports Main "HOL-Library.List_Lexorder" "HOL-Library.Multiset"
begin

section \<open>Text: Python strings, whitespace and line iteration\<close>

text \<open>
  A Python \<open>str\<close> is a sequence of Unicode code points, so a string is a list of
  natural numbers here. ASCII literals of the source are written as Isabelle strings and
  converted with \<open>pystr_of\<close>.
\<close>

type_synonym pystr = "nat list"

definition pystr_of :: "string \<Rightarrow> pystr" where
  "pystr_of s = map of_char s"

text \<open>
  \<open>str.isspace\<close> on one code point: CPython's whitespace table (ASCII 9-13, 28-32, and
  the Unicode characters of bidirectional class WS, B, S or category Zs).
\<close>

definition isspace :: "nat \<Rightarrow> bool" where
  "isspace c \<longleftrightarrow>
     (9 \<le> c \<and> c \<le> 13) \<or> (28 \<le> c \<and> c \<le> 32) \<or> c = 133 \<or> c = 160 \<or> c = 5760 \<or>
     (8192 \<le> c \<and> c \<le> 8202) \<or> c = 8232 \<or> c = 8233 \<or> c = 8239 \<or> c = 8287 \<or> c = 12288"

text \<open>\<open>line.strip()\<close>: drop whitespace from both ends.\<close>

definition strip :: "pystr \<Rightarrow> pystr" where
  "strip s = rev (dropWhile isspace (rev (dropWhile isspace s)))"

text \<open>
  \<open>for line in infile\<close> on a file opened in text mode with the default
  \<open>newline=None\<close>: a line ends at \<open>\n\<close>, \<open>\r\<close> or \<open>\r\n\<close>, each handed over as
  \<open>\n\<close>; the last line has no terminator when the text does not end with one.
  \<open>cur\<close> is the line collected so far.
\<close>

fun text_lines_aux :: "pystr \<Rightarrow> pystr \<Rightarrow> pystr list" where
  "text_lines_aux cur [] = (if cur = [] then [] else [cur])"
| "text_lines_aux cur (c # cs) =
     (if c = 10 then (cur @ [10]) # text_lines_aux [] cs
      else if c = 13 then
        (case cs of
           [] \<Rightarrow> [cur @ [10]]
         | d # ds \<Rightarrow>
             if d = 10 then (cur @ [10]) # text_lines_aux [] ds
             else (cur @ [10]) # text_lines_aux [] cs)
      else text_lines_aux (cur @ [c]) cs)"

definition text_lines :: "pystr \<Rightarrow> pystr list" where
  "text_lines s = text_lines_aux [] s"


section \<open>Paths\<close>

text \<open>
  A \<open>pathlib.Path\<close> is kept as its tuple of \<open>parts\<close>: the root \<open>/\<close> (if any) first,
  then one component per name. \<open>Path(".")\<close> has no parts. POSIX flavour: no drive, no
  case folding.
\<close>

type_synonym path = "pystr list"

definition is_root :: "pystr \<Rightarrow> bool" where
  "is_root r \<longleftrightarrow> r = [47] \<or> r = [47, 47]"

text \<open>\<open>"/".join(xs)\<close>\<close>

fun join_slash :: "pystr list \<Rightarrow> pystr" where
  "join_slash [] = []"
| "join_slash [x] = x"
| "join_slash (x # y # ys) = x @ [47] @ join_slash (y # ys)"

text \<open>\<open>str(path)\<close>, as the f-strings of \<open>main\<close> print a path.\<close>

definition path_str :: "path \<Rightarrow> pystr" where
  "path_str p =
     (case p of
        [] \<Rightarrow> [46]
      | r # rest \<Rightarrow> if is_root r then r @ join_slash rest else join_slash p)"

text \<open>\<open>path.parent\<close>: the root and \<open>.\<close> are their own parents.\<close>

definition parent :: "path \<Rightarrow> path" where
  "parent p = (case p of [r] \<Rightarrow> if is_root r then [r] else [] | _ \<Rightarrow> butlast p)"

text \<open>
  \<open>sorted\<close> on paths uses \<open>PurePath.__lt__\<close>, which compares the sequences of parts: a
  lexicographic order on lists of strings, each string compared by code point. This is the
  order \<open>\<le>\<close> of \<open>List_Lexorder\<close> on \<^typ>\<open>path\<close>, and \<^const>\<open>sort\<close> sorts by it.
\<close>

section \<open>The file system\<close>

text \<open>
  What the program sees of the file system. \<open>fs_nodes\<close> is the store of files and
  directories, keyed by canonical path. The name space is a parameter, since the source
  only calls into it through \<open>pathlib\<close>:
  \<^item> \<open>fs_resolve\<close> is \<open>Path.resolve()\<close> (non-strict: it returns a path also for a name
    that does not exist, and follows symbolic links);
  \<^item> \<open>fs_glob directory pattern\<close> is \<open>directory.glob(pattern)\<close>: the matches in the order
    the file system enumerates them, or the exception pathlib raises for a pattern it
    rejects.
  Every access by name goes through \<open>fs_resolve\<close>, so two names of one file share one
  node; a file has one canonical path (hard links are not modelled). A regular file
  holds its text (UTF-8 decoding is taken as done); a special file (a device, a pipe)
  holds the text that reading it delivers, and writing to it leaves the store as it is.
  Permissions are not modelled: an existing file can be read and written.
\<close>

datatype node = Regular pystr | Directory | Special pystr

datatype py_error =
    SystemExit pystr
  | FileNotFoundError path
  | FileExistsError path
  | IsADirectoryError path
  | NotADirectoryError path
  | ValueError pystr
  | NotImplementedError pystr

record filesystem =
  fs_nodes :: "path \<Rightarrow> node option"
  fs_resolve :: "path \<Rightarrow> path"
  fs_glob :: "path \<Rightarrow> pystr \<Rightarrow> py_error + path list"

definition lookup :: "filesystem \<Rightarrow> path \<Rightarrow> node option" where
  "lookup fs p = fs_nodes fs (fs_resolve fs p)"

definition store :: "filesystem \<Rightarrow> path \<Rightarrow> node \<Rightarrow> filesystem" where
  "store fs p n = fs\<lparr>fs_nodes := (fs_nodes fs)(fs_resolve fs p \<mapsto> n)\<rparr>"

text \<open>\<open>path.exists()\<close>, \<open>path.is_dir()\<close>, \<open>path.is_file()\<close>: all three follow links.\<close>

definition exists :: "filesystem \<Rightarrow> path \<Rightarrow> bool" where
  "exists fs p \<longleftrightarrow> lookup fs p \<noteq> None"

definition is_dir :: "filesystem \<Rightarrow> path \<Rightarrow> bool" where
  "is_dir fs p \<longleftrightarrow> lookup fs p = Some Directory"

definition is_file :: "filesystem \<Rightarrow> path \<Rightarrow> bool" where
  "is_file fs p \<longleftrightarrow> (case lookup fs p of Some (Regular c) \<Rightarrow> True | _ \<Rightarrow> False)"

text \<open>The text of a regular file, for stating what a run left behind.\<close>

definition read_text :: "filesystem \<Rightarrow> path \<Rightarrow> pystr option" where
  "read_text fs p = (case lookup fs p of Some (Regular c) \<Rightarrow> Some c | _ \<Rightarrow> None)"

section \<open>collect\_files\<close>

definition collect_files :: "filesystem \<Rightarrow> path \<Rightarrow> pystr \<Rightarrow> path list \<Rightarrow> py_error + path list" where
  "collect_files fs directory pattern output_names =
     (let excluded = set (map (fs_resolve fs) output_names) in
      case fs_glob fs directory pattern of
        Inl e \<Rightarrow> Inl e
      | Inr matches \<Rightarrow>
          Inr (filter (\<lambda>p. is_file fs p \<and> fs_resolve fs p \<notin> excluded) (sort matches)))"


section \<open>Creating directories and opening files\<close>

text \<open>
  \<open>os.mkdir(p)\<close>: the name must be free and its parent an existing directory.
\<close>

definition os_mkdir :: "filesystem \<Rightarrow> path \<Rightarrow> py_error + filesystem" where
  "os_mkdir fs p =
     (if lookup fs p \<noteq> None then Inl (FileExistsError p)
      else case lookup fs (parent p) of
             None \<Rightarrow> Inl (FileNotFoundError p)
           | Some Directory \<Rightarrow> Inr (store fs p Directory)
           | Some _ \<Rightarrow> Inl (NotADirectoryError p))"

definition is_FileNotFoundError :: "py_error \<Rightarrow> bool" where
  "is_FileNotFoundError e \<longleftrightarrow> (case e of FileNotFoundError _ \<Rightarrow> True | _ \<Rightarrow> False)"

text \<open>
  \<open>path.mkdir(parents=True, exist_ok=True)\<close>, after pathlib: try \<open>os.mkdir\<close>; on
  \<open>FileNotFoundError\<close> make the parent the same way and try once more (now with
  \<open>parents=False\<close>); any other \<open>OSError\<close> is swallowed when the path is a directory.
  The result is the exception, if any, and the file system as the call left it.
\<close>

function mkdir_p :: "filesystem \<Rightarrow> path \<Rightarrow> py_error option \<times> filesystem" where
  "mkdir_p fs p =
     (case os_mkdir fs p of
        Inr fs' \<Rightarrow> (None, fs')
      | Inl e \<Rightarrow>
          if is_FileNotFoundError e then
            (if parent p = p then (Some e, fs)
             else case mkdir_p fs (parent p) of
                    (Some e', fs1) \<Rightarrow> (Some e', fs1)
                  | (None, fs1) \<Rightarrow>
                      (case os_mkdir fs1 p of
                         Inr fs2 \<Rightarrow> (None, fs2)
                       | Inl e2 \<Rightarrow>
                           if is_FileNotFoundError e2 then (Some e2, fs1)
                           else if is_dir fs1 p then (None, fs1) else (Some e2, fs1)))
          else if is_dir fs p then (None, fs) else (Some e, fs))"
  by pat_completeness auto

termination mkdir_p
  by (relation "measure (\<lambda>(fs, p). length p)")
     (auto simp: parent_def split: list.splits if_splits)

declare mkdir_p.simps [simp del]

text \<open>
  The handle of a file open for writing: where it writes, and the text written but not
  yet flushed. The model flushes when the file is closed. CPython also flushes whenever
  its buffer fills; a program can tell the difference only by reading the file it is
  writing, after more than a buffer of output.
\<close>

record writer =
  w_path :: path
  w_pending :: pystr

text \<open>
  \<open>path.open("w")\<close>: a directory cannot be opened; a regular file is truncated; a
  special file is opened as it is; a missing file is created if its parent is a
  directory.
\<close>

definition open_w :: "filesystem \<Rightarrow> path \<Rightarrow> py_error + filesystem \<times> writer" where
  "open_w fs p =
     (case lookup fs p of
        Some Directory \<Rightarrow> Inl (IsADirectoryError p)
      | Some (Regular c) \<Rightarrow> Inr (store fs p (Regular []), \<lparr>w_path = p, w_pending = []\<rparr>)
      | Some (Special s) \<Rightarrow> Inr (fs, \<lparr>w_path = p, w_pending = []\<rparr>)
      | None \<Rightarrow>
          (case lookup fs (parent p) of
             None \<Rightarrow> Inl (FileNotFoundError p)
           | Some Directory \<Rightarrow> Inr (store fs p (Regular []), \<lparr>w_path = p, w_pending = []\<rparr>)
           | Some _ \<Rightarrow> Inl (NotADirectoryError p)))"

definition writer_write :: "writer \<Rightarrow> pystr \<Rightarrow> writer" where
  "writer_write w s = w\<lparr>w_pending := w_pending w @ s\<rparr>"

text \<open>Leaving the \<open>with\<close> block: the pending text reaches the file.\<close>

definition close_w :: "filesystem \<Rightarrow> writer \<Rightarrow> filesystem" where
  "close_w fs w =
     (case lookup fs (w_path w) of
        Some (Regular c) \<Rightarrow> store fs (w_path w) (Regular (c @ w_pending w))
      | _ \<Rightarrow> fs)"

text \<open>\<open>path.open("r")\<close> and the text then read from it.\<close>

definition open_r :: "filesystem \<Rightarrow> path \<Rightarrow> py_error + pystr" where
  "open_r fs p =
     (case lookup fs p of
        None \<Rightarrow> Inl (FileNotFoundError p)
      | Some Directory \<Rightarrow> Inl (IsADirectoryError p)
      | Some (Regular c) \<Rightarrow> Inr c
      | Some (Special s) \<Rightarrow> Inr s)"

section \<open>merge\_jsonl\<close>

text \<open>The inner loop, \<open>for line in infile\<close>, over the output handle and the counter.\<close>

fun merge_lines :: "pystr list \<Rightarrow> writer \<times> nat \<Rightarrow> writer \<times> nat" where
  "merge_lines [] (outfile, lines_written) = (outfile, lines_written)"
| "merge_lines (line # rest) (outfile, lines_written) =
     (let stripped = strip line in
      if stripped = [] then merge_lines rest (outfile, lines_written)
      else merge_lines rest (writer_write outfile (stripped @ [10]), lines_written + 1))"

text \<open>
  The outer loop, \<open>for file_path in files\<close>. A file that cannot be opened ends the loop
  with its exception; what was written before stays in the handle.
\<close>

fun merge_files :: "filesystem \<Rightarrow> path list \<Rightarrow> writer \<times> nat \<Rightarrow> py_error option \<times> writer \<times> nat" where
  "merge_files fs [] st = (None, st)"
| "merge_files fs (file_path # rest) st =
     (case open_r fs file_path of
        Inl e \<Rightarrow> (Some e, st)
      | Inr content \<Rightarrow> merge_files fs rest (merge_lines (text_lines content) st))"

definition merge_jsonl :: "filesystem \<Rightarrow> path list \<Rightarrow> path \<Rightarrow> (py_error + nat) \<times> filesystem" where
  "merge_jsonl fs files output_path =
     (case mkdir_p fs (parent output_path) of
        (Some e, fs1) \<Rightarrow> (Inl e, fs1)
      | (None, fs1) \<Rightarrow>
          (case open_w fs1 output_path of
             Inl e \<Rightarrow> (Inl e, fs1)
           | Inr (fs2, outfile) \<Rightarrow>
               (case merge_files fs2 files (outfile, 0) of
                  (Some e, outfile', lines_written) \<Rightarrow> (Inl e, close_w fs2 outfile')
                | (None, outfile', lines_written) \<Rightarrow> (Inr lines_written, close_w fs2 outfile'))))"

section \<open>main\<close>

text \<open>The namespace \<open>parse_args\<close> returns.\<close>

record args =
  input_dir :: path
  train_pattern :: pystr
  test_pattern :: pystr
  output_train :: path
  output_test :: path

text \<open>\<open>str(n)\<close> for a count: decimal digits.\<close>

fun str_nat :: "nat \<Rightarrow> pystr" where
  "str_nat n = (if n < 10 then [48 + n] else str_nat (n div 10) @ [48 + n mod 10])"

declare str_nat.simps [simp del]

definition output_paths :: "args \<Rightarrow> path list" where
  "output_paths a = [output_train a, output_test a]"

definition train_files :: "filesystem \<Rightarrow> args \<Rightarrow> py_error + path list" where
  "train_files fs a = collect_files fs (input_dir a) (train_pattern a) (output_paths a)"

definition test_files :: "filesystem \<Rightarrow> args \<Rightarrow> py_error + path list" where
  "test_files fs a = collect_files fs (input_dir a) (test_pattern a) (output_paths a)"

definition no_files_message :: "string \<Rightarrow> pystr \<Rightarrow> path \<Rightarrow> pystr" where
  "no_files_message split pattern directory =
     pystr_of ''No '' @ pystr_of split @ pystr_of '' files matched pattern '' @ [39] @ pattern @
     [39] @ pystr_of '' in '' @ path_str directory"

definition merged_message :: "nat \<Rightarrow> string \<Rightarrow> path \<Rightarrow> nat \<Rightarrow> pystr" where
  "merged_message n_files split output n_lines =
     pystr_of ''Merged '' @ str_nat n_files @ [32] @ pystr_of split @ pystr_of '' files into '' @
     path_str output @ pystr_of '' ('' @ str_nat n_lines @ pystr_of '' lines)''"

text \<open>
  \<open>main\<close>, from the parsed arguments on. It returns the lines printed, or the exception
  that ended the run, and the file system it left. The process exits with status 1 on an
  exception (\<open>SystemExit\<close> with a message included) and 0 otherwise.
\<close>

definition main :: "filesystem \<Rightarrow> args \<Rightarrow> (py_error + pystr list) \<times> filesystem" where
  "main fs a =
     (if \<not> exists fs (input_dir a) \<or> \<not> is_dir fs (input_dir a) then
        (Inl (SystemExit (pystr_of ''Input directory not found: '' @ path_str (input_dir a))), fs)
      else
        (case train_files fs a of
           Inl e \<Rightarrow> (Inl e, fs)
         | Inr trains \<Rightarrow>
        (case test_files fs a of
           Inl e \<Rightarrow> (Inl e, fs)
         | Inr tests \<Rightarrow>
        (if trains = [] then
           (Inl (SystemExit (no_files_message ''train'' (train_pattern a) (input_dir a))), fs)
         else if tests = [] then
           (Inl (SystemExit (no_files_message ''test'' (test_pattern a) (input_dir a))), fs)
         else
           (case merge_jsonl fs trains (output_train a) of
              (Inl e, fs1) \<Rightarrow> (Inl e, fs1)
            | (Inr train_count, fs1) \<Rightarrow>
           (case merge_jsonl fs1 tests (output_test a) of
              (Inl e, fs2) \<Rightarrow> (Inl e, fs2)
            | (Inr test_count, fs2) \<Rightarrow>
                (Inr [merged_message (length trains) ''train'' (output_train a) train_count,
                      merged_message (length tests) ''test'' (output_test a) test_count],
                 fs2)))))))"

definition exit_status :: "py_error + 'a \<Rightarrow> nat" where
  "exit_status r = (case r of Inl e \<Rightarrow> 1 | Inr v \<Rightarrow> 0)"


section \<open>What a merge is meant to produce\<close>

text \<open>
  The specification's side, in its own words, for comparison with \<open>merge_jsonl\<close>: the
  lines of the input files, in file order and line order; of these the lines that are
  not blank; and each of those trimmed and ended by one newline.
\<close>

definition file_lines :: "filesystem \<Rightarrow> path \<Rightarrow> pystr list" where
  "file_lines fs f = (case open_r fs f of Inr content \<Rightarrow> text_lines content | Inl e \<Rightarrow> [])"

definition input_lines :: "filesystem \<Rightarrow> path list \<Rightarrow> pystr list" where
  "input_lines fs files = concat (map (file_lines fs) files)"

definition nonblank :: "pystr \<Rightarrow> bool" where
  "nonblank l \<longleftrightarrow> strip l \<noteq> []"

definition spec_merged_lines :: "pystr list \<Rightarrow> pystr list" where
  "spec_merged_lines ls = map (\<lambda>l. strip l @ [10]) (filter nonblank ls)"

definition spec_merged_text :: "pystr list \<Rightarrow> pystr" where
  "spec_merged_text ls = concat (spec_merged_lines ls)"

section \<open>An example file system\<close>

text \<open>
  A directory \<open>/data\<close> with two train files, one test file, the train output of an
  earlier run, a second name \<open>train_link.json\<close> for that output, and a directory and a
  special file whose names match the train pattern. The file system enumerates the
  matches in no particular order. The test output goes to \<open>/data/out\<close>, which does not
  exist yet.
\<close>

definition demo_dir :: path where
  "demo_dir = [[47], pystr_of ''data'']"

definition demo_file :: "string \<Rightarrow> path" where
  "demo_file name = demo_dir @ [pystr_of name]"

definition demo_nodes :: "(path \<times> node) list" where
  "demo_nodes =
     [([[47]], Directory),
      (demo_dir, Directory),
      (demo_file ''train_0.json'',
         Regular (pystr_of ''a'' @ [10, 10, 32] @ pystr_of ''b'' @ [32, 13, 10] @ pystr_of ''c'')),
      (demo_file ''train_1.json'', Regular (pystr_of ''d'' @ [10])),
      (demo_file ''test_a.json'', Regular (pystr_of ''t'' @ [10])),
      (demo_file ''unified_train.json'',
         Regular (pystr_of ''old1'' @ [10] @ pystr_of ''old2'' @ [10])),
      (demo_file ''train_dir.json'', Directory),
      (demo_file ''train_fifo.json'', Special [])]"

definition demo_fs :: filesystem where
  "demo_fs =
     \<lparr>fs_nodes = map_of demo_nodes,
      fs_resolve = (\<lambda>p. if p = demo_file ''train_link.json''
                         then demo_file ''unified_train.json'' else p),
      fs_glob = (\<lambda>d pat.
         if pat = [] then Inl (ValueError pat)
         else if d = demo_dir \<and> pat = pystr_of ''*train*.json'' then
           Inr [demo_file ''unified_train.json'', demo_file ''train_1.json'',
                demo_file ''train_fifo.json'', demo_file ''train_link.json'',
                demo_file ''train_dir.json'', demo_file ''train_0.json'']
         else if d = demo_dir \<and> pat = pystr_of ''*test*.json'' then
           Inr [demo_file ''test_a.json'']
         else Inr [])\<rparr>"

definition demo_args :: args where
  "demo_args =
     \<lparr>input_dir = demo_dir,
      train_pattern = pystr_of ''*train*.json'',
      test_pattern = pystr_of ''*test*.json'',
      output_train = demo_file ''unified_train.json'',
      output_test = demo_dir @ [pystr_of ''out'', pystr_of ''unified_test.json'']\<rparr>"

text \<open>
  A directory with two subdirectories \<open>a\<close> and \<open>a-b\<close>, each holding a file \<open>t.json\<close>,
  and a pattern with two components that matches both files.
\<close>

definition nested_fs :: filesystem where
  "nested_fs =
     \<lparr>fs_nodes = map_of
        [([[47]], Directory),
         (demo_dir, Directory),
         (demo_dir @ [pystr_of ''a''], Directory),
         (demo_dir @ [pystr_of ''a-b''], Directory),
         (demo_dir @ [pystr_of ''a'', pystr_of ''t.json''], Regular (pystr_of ''x'' @ [10])),
         (demo_dir @ [pystr_of ''a-b'', pystr_of ''t.json''], Regular (pystr_of ''y'' @ [10]))],
      fs_resolve = (\<lambda>p. p),
      fs_glob = (\<lambda>d pat.
         if d = demo_dir \<and> pat = pystr_of ''*/t.json'' then
           Inr [demo_dir @ [pystr_of ''a-b'', pystr_of ''t.json''],
                demo_dir @ [pystr_of ''a'', pystr_of ''t.json'']]
         else Inr [])\<rparr>"

lemmas demo_defs =
  demo_dir_def demo_file_def demo_nodes_def demo_fs_def demo_args_def pystr_of_def

section \<open>Properties of collect\_files\<close>

lemma collect_files_Inr:
  "collect_files fs d pat outs = Inr files \<longleftrightarrow>
     (\<exists>ms. fs_glob fs d pat = Inr ms \<and>
        files = filter (\<lambda>p. is_file fs p \<and> fs_resolve fs p \<notin> fs_resolve fs ` set outs)
                  (sort ms))"
  by (auto simp: collect_files_def split: sum.splits)

lemma is_file_iff: "is_file fs p \<longleftrightarrow> (\<exists>c. lookup fs p = Some (Regular c))"
  by (simp add: is_file_def split: option.splits node.splits)

lemma demo_train_files:
  "train_files demo_fs demo_args = Inr [demo_file ''train_0.json'', demo_file ''train_1.json'']"
  by (simp add: train_files_def collect_files_def output_paths_def is_file_def lookup_def
        demo_defs)

lemma demo_test_files:
  "test_files demo_fs demo_args = Inr [demo_file ''test_a.json'']"
  by (simp add: test_files_def collect_files_def output_paths_def is_file_def lookup_def
        demo_defs)

text \<open>
  Claim C3. No path returned by \<open>collect_files\<close> has the canonical form of an excluded
  output path; \<open>main\<close> excludes both output paths from the train selection and from the
  test selection, so neither merge reads an output file.
\<close>

theorem collect_files_excludes_outputs:
  "(collect_files fs d pat outs = Inr files \<longrightarrow>
      (\<forall>p \<in> set files. \<forall>out \<in> set outs. fs_resolve fs p \<noteq> fs_resolve fs out)) \<and>
   (train_files fs a = Inr trains \<longrightarrow>
      (\<forall>p \<in> set trains. fs_resolve fs p \<noteq> fs_resolve fs (output_train a) \<and>
                         fs_resolve fs p \<noteq> fs_resolve fs (output_test a))) \<and>
   (test_files fs a = Inr tests \<longrightarrow>
      (\<forall>p \<in> set tests. fs_resolve fs p \<noteq> fs_resolve fs (output_train a) \<and>
                        fs_resolve fs p \<noteq> fs_resolve fs (output_test a)))"
  by (auto simp: collect_files_Inr train_files_def test_files_def output_paths_def)

theorem collect_files_excludes_outputs_witness:
  "train_files demo_fs demo_args = Inr [demo_file ''train_0.json'', demo_file ''train_1.json''] \<and>
   test_files demo_fs demo_args = Inr [demo_file ''test_a.json''] \<and>
   fs_resolve demo_fs (demo_file ''train_0.json'') \<noteq> fs_resolve demo_fs (output_train demo_args) \<and>
   fs_resolve demo_fs (demo_file ''train_0.json'') \<noteq> fs_resolve demo_fs (output_test demo_args) \<and>
   fs_resolve demo_fs (demo_file ''train_1.json'') \<noteq> fs_resolve demo_fs (output_train demo_args) \<and>
   fs_resolve demo_fs (demo_file ''train_1.json'') \<noteq> fs_resolve demo_fs (output_test demo_args) \<and>
   fs_resolve demo_fs (demo_file ''test_a.json'') \<noteq> fs_resolve demo_fs (output_train demo_args) \<and>
   fs_resolve demo_fs (demo_file ''test_a.json'') \<noteq> fs_resolve demo_fs (output_test demo_args)"
proof -
  have tr: "train_files demo_fs demo_args
              = Inr [demo_file ''train_0.json'', demo_file ''train_1.json'']"
    by (rule demo_train_files)
  have te: "test_files demo_fs demo_args = Inr [demo_file ''test_a.json'']"
    by (rule demo_test_files)
  have co: "collect_files demo_fs demo_dir (train_pattern demo_args) (output_paths demo_args)
              = Inr [demo_file ''train_0.json'', demo_file ''train_1.json'']"
    using tr by (simp add: train_files_def demo_args_def)
  show ?thesis
    using collect_files_excludes_outputs
            [of demo_fs demo_dir "train_pattern demo_args" "output_paths demo_args"
                "[demo_file ''train_0.json'', demo_file ''train_1.json'']" demo_args
                "[demo_file ''train_0.json'', demo_file ''train_1.json'']"
                "[demo_file ''test_a.json'']"]
          tr te co
    by simp
qed

text \<open>
  Claim C8. Every path returned by \<open>collect_files\<close> is a regular file (\<open>is_file\<close>,
  which follows links); a match that is a directory, a special file or a link to
  neither is left out, and no error is raised for it.
\<close>

theorem collect_files_regular:
  "collect_files fs d pat outs = Inr files \<Longrightarrow>
     (\<forall>p \<in> set files. is_file fs p) \<and>
     (\<forall>p. lookup fs p = Some Directory \<or> (\<exists>s. lookup fs p = Some (Special s)) \<or>
          lookup fs p = None \<longrightarrow> p \<notin> set files)"
  by (auto simp: collect_files_Inr is_file_iff)

theorem collect_files_regular_witness:
  "collect_files demo_fs demo_dir (pystr_of ''*train*.json'') []
     = Inr [demo_file ''train_0.json'', demo_file ''train_1.json'',
            demo_file ''train_link.json'', demo_file ''unified_train.json''] \<and>
   is_file demo_fs (demo_file ''train_link.json'') \<and>
   lookup demo_fs (demo_file ''train_dir.json'') = Some Directory \<and>
   lookup demo_fs (demo_file ''train_fifo.json'') = Some (Special []) \<and>
   demo_file ''train_dir.json'' \<notin> set [demo_file ''train_0.json'', demo_file ''train_1.json'',
            demo_file ''train_link.json'', demo_file ''unified_train.json''] \<and>
   demo_file ''train_fifo.json'' \<notin> set [demo_file ''train_0.json'', demo_file ''train_1.json'',
            demo_file ''train_link.json'', demo_file ''unified_train.json'']"
proof -
  have co: "collect_files demo_fs demo_dir (pystr_of ''*train*.json'') []
     = Inr [demo_file ''train_0.json'', demo_file ''train_1.json'',
            demo_file ''train_link.json'', demo_file ''unified_train.json'']"
    by (simp add: collect_files_def is_file_def lookup_def demo_defs)
  have d: "lookup demo_fs (demo_file ''train_dir.json'') = Some Directory"
    by (simp add: lookup_def demo_defs)
  have s: "lookup demo_fs (demo_file ''train_fifo.json'') = Some (Special [])"
    by (simp add: lookup_def demo_defs)
  show ?thesis
    using collect_files_regular [OF co] co d s by simp
qed

text \<open>
  Claim C9. When the pattern matches nothing, or every match is left out (not a regular
  file, or an excluded output), \<open>collect_files\<close> returns the empty list and raises
  nothing: whether an empty selection is an error is left to the caller.
\<close>

theorem collect_files_empty:
  "fs_glob fs d pat = Inr ms \<Longrightarrow>
   (\<forall>p \<in> set ms. \<not> is_file fs p \<or> fs_resolve fs p \<in> fs_resolve fs ` set outs) \<Longrightarrow>
   collect_files fs d pat outs = Inr []"
  by (auto simp: collect_files_def filter_empty_conv)

theorem collect_files_empty_witness:
  "fs_glob demo_fs demo_dir (pystr_of ''*.txt'') = Inr [] \<and>
   collect_files demo_fs demo_dir (pystr_of ''*.txt'') (output_paths demo_args) = Inr [] \<and>
   fs_glob demo_fs demo_dir (pystr_of ''*test*.json'') = Inr [demo_file ''test_a.json''] \<and>
   collect_files demo_fs demo_dir (pystr_of ''*test*.json'') [demo_file ''test_a.json''] = Inr []"
proof -
  have g1: "fs_glob demo_fs demo_dir (pystr_of ''*.txt'') = Inr []"
    by (simp add: demo_defs)
  have g2: "fs_glob demo_fs demo_dir (pystr_of ''*test*.json'') = Inr [demo_file ''test_a.json'']"
    by (simp add: demo_defs)
  have c1: "collect_files demo_fs demo_dir (pystr_of ''*.txt'') (output_paths demo_args) = Inr []"
    using collect_files_empty [OF g1] by simp
  have c2: "collect_files demo_fs demo_dir (pystr_of ''*test*.json'') [demo_file ''test_a.json'']
              = Inr []"
    using collect_files_empty [OF g2, of "[demo_file ''test_a.json'']"] by simp
  show ?thesis using g1 g2 c1 c2 by simp
qed

text \<open>The order of the selection.\<close>

lemma sort_mset_eq: "mset xs = mset ys \<Longrightarrow> sort xs = sort (ys :: 'a::linorder list)"
  by (metis properties_for_sort sorted_sort mset_sort)

lemma collect_files_perm:
  "fs_glob fs d pat = Inr ms \<Longrightarrow> mset ms' = mset ms \<Longrightarrow>
   collect_files (fs\<lparr>fs_glob := \<lambda>d' pat'. if d' = d \<and> pat' = pat then Inr ms' else fs_glob fs d' pat'\<rparr>) d pat outs
     = collect_files fs d pat outs"
  by (simp add: collect_files_def is_file_def lookup_def sort_mset_eq[of ms' ms])

lemma join_slash_snoc: "xs \<noteq> [] \<Longrightarrow> join_slash (xs @ [n]) = join_slash xs @ [47] @ n"
  by (induction xs rule: join_slash.induct) auto

lemma path_str_snoc: "\<exists>pre. \<forall>n. path_str (dir @ [n]) = pre @ n"
proof (cases dir)
  case Nil
  then have "\<forall>n. path_str (dir @ [n]) = [] @ n" by (simp add: path_str_def)
  then show ?thesis by blast
next
  case (Cons r rest)
  show ?thesis
  proof (cases "is_root r \<and> rest = []")
    case True
    then have "\<forall>n. path_str (dir @ [n]) = r @ n" using Cons by (simp add: path_str_def)
    then show ?thesis by blast
  next
    case False
    then have "\<forall>n. path_str (dir @ [n]) = path_str dir @ [47] @ n"
      using Cons join_slash_snoc [of rest] join_slash_snoc [of "r # rest"]
      by (auto simp: path_str_def)
    then show ?thesis by (metis append_assoc)
  qed
qed

lemma append_le_cancel: "pre @ a \<le> pre @ b \<longleftrightarrow> a \<le> (b :: 'a::linorder list)"
  by (induction pre) auto

lemma snoc_path_le: "dir @ [m] \<le> dir @ [n] \<longleftrightarrow> m \<le> (n :: 'a::linorder list)"
  by (auto simp: append_le_cancel)

lemma path_str_mono_same_dir:
  assumes "p \<noteq> []" "butlast p = dir" "q \<noteq> []" "butlast q = dir" "p \<le> q"
  shows "path_str p \<le> path_str q"
proof -
  from assms have p: "p = dir @ [last p]" and q: "q = dir @ [last q]"
    by (metis append_butlast_last_id)+
  obtain pre where pre: "\<forall>n. path_str (dir @ [n]) = pre @ n"
    using path_str_snoc by blast
  from assms(5) p q have "last p \<le> last q" by (metis snoc_path_le)
  then have "pre @ last p \<le> pre @ last q" by (simp add: append_le_cancel)
  then show ?thesis using p q pre by metis
qed

lemma sorted_path_str:
  assumes "sorted files" "\<forall>p \<in> set files. p \<noteq> [] \<and> butlast p = dir"
  shows "sorted (map path_str files)"
proof -
  have "sorted_wrt (\<lambda>p q. path_str p \<le> path_str q) files"
    using assms(1)
    by (rule sorted_wrt_mono_rel [rotated]) (use assms(2) in \<open>auto intro: path_str_mono_same_dir\<close>)
  then show ?thesis by (simp add: sorted_map)
qed

text \<open>
  Claim C6, as amended. The list returned by \<open>collect_files\<close> is sorted in the order of
  paths, which compares the sequences of path components; when all returned paths lie in
  one directory, the list is also sorted by path string. The result does not depend on
  the order in which the file system enumerates the matches.
\<close>

theorem collect_files_sorted:
  assumes "collect_files fs d pat outs = Inr files"
  shows "sorted files \<and>
     ((\<forall>p \<in> set files. p \<noteq> [] \<and> butlast p = dir) \<longrightarrow> sorted (map path_str files)) \<and>
     (\<forall>ms ms'. fs_glob fs d pat = Inr ms \<and> mset ms' = mset ms \<longrightarrow>
        collect_files
          (fs\<lparr>fs_glob := \<lambda>d' pat'. if d' = d \<and> pat' = pat then Inr ms' else fs_glob fs d' pat'\<rparr>)
          d pat outs = Inr files)"
proof -
  have s: "sorted files"
    using assms by (auto simp: collect_files_Inr intro: sorted_filter[where f="\<lambda>x. x", simplified])
  show ?thesis
    using s assms sorted_path_str [of files dir] collect_files_perm [of fs d pat _ _ outs]
    by auto
qed

theorem collect_files_sorted_witness:
  "collect_files demo_fs demo_dir (pystr_of ''*train*.json'') (output_paths demo_args)
     = Inr [demo_file ''train_0.json'', demo_file ''train_1.json''] \<and>
   sorted [demo_file ''train_0.json'', demo_file ''train_1.json''] \<and>
   sorted (map path_str [demo_file ''train_0.json'', demo_file ''train_1.json'']) \<and>
   collect_files
     (demo_fs\<lparr>fs_glob := \<lambda>d' pat'.
        if d' = demo_dir \<and> pat' = pystr_of ''*train*.json'' then
          Inr [demo_file ''train_0.json'', demo_file ''train_dir.json'',
               demo_file ''train_link.json'', demo_file ''train_fifo.json'',
               demo_file ''train_1.json'', demo_file ''unified_train.json'']
        else fs_glob demo_fs d' pat'\<rparr>)
     demo_dir (pystr_of ''*train*.json'') (output_paths demo_args)
     = Inr [demo_file ''train_0.json'', demo_file ''train_1.json'']"
proof -
  let ?files = "[demo_file ''train_0.json'', demo_file ''train_1.json'']"
  let ?ms = "[demo_file ''unified_train.json'', demo_file ''train_1.json'',
                demo_file ''train_fifo.json'', demo_file ''train_link.json'',
                demo_file ''train_dir.json'', demo_file ''train_0.json'']"
  let ?ms' = "[demo_file ''train_0.json'', demo_file ''train_dir.json'',
               demo_file ''train_link.json'', demo_file ''train_fifo.json'',
               demo_file ''train_1.json'', demo_file ''unified_train.json'']"
  have co: "collect_files demo_fs demo_dir (pystr_of ''*train*.json'') (output_paths demo_args)
              = Inr ?files"
    using demo_train_files by (simp add: train_files_def demo_args_def)
  have dir: "\<forall>p \<in> set ?files. p \<noteq> [] \<and> butlast p = demo_dir"
    by (simp add: demo_file_def)
  have g: "fs_glob demo_fs demo_dir (pystr_of ''*train*.json'') = Inr ?ms"
    by (simp add: demo_defs)
  have m: "mset ?ms' = mset ?ms"
    by (simp add: add.commute add.left_commute)
  from collect_files_sorted [OF co, of demo_dir] dir g m co
  show ?thesis by blast
qed

text \<open>
  Claim C6, as stated, fails for a pattern that reaches into subdirectories: \<open>a\<close> comes
  before \<open>a-b\<close> as a component, while the string \<open>/data/a-b/t.json\<close> comes before
  \<open>/data/a/t.json\<close>, the hyphen being smaller than the slash.
\<close>

theorem collect_files_sorted_counterexample:
  "collect_files nested_fs demo_dir (pystr_of ''*/t.json'') []
     = Inr [demo_dir @ [pystr_of ''a'', pystr_of ''t.json''],
            demo_dir @ [pystr_of ''a-b'', pystr_of ''t.json'']] \<and>
   map path_str [demo_dir @ [pystr_of ''a'', pystr_of ''t.json''],
                 demo_dir @ [pystr_of ''a-b'', pystr_of ''t.json'']]
     = [pystr_of ''/data/a/t.json'', pystr_of ''/data/a-b/t.json''] \<and>
   \<not> sorted [pystr_of ''/data/a/t.json'', pystr_of ''/data/a-b/t.json'']"
  by (simp add: collect_files_def is_file_def lookup_def nested_fs_def path_str_def is_root_def
        demo_dir_def pystr_of_def)

section \<open>Properties of main\<close>

text \<open>
  Claim C5. If the input directory does not exist or is not a directory, \<open>main\<close> ends
  with \<open>SystemExit\<close> (exit status 1) and a message naming the path. It does so whatever
  the patterns are, also one that \<open>glob\<close> would reject, so no selection has been made,
  and the file system is as it was.
\<close>

theorem main_missing_directory:
  "\<not> exists fs (input_dir a) \<or> \<not> is_dir fs (input_dir a) \<Longrightarrow>
   main fs a =
     (Inl (SystemExit (pystr_of ''Input directory not found: '' @ path_str (input_dir a))), fs) \<and>
   exit_status (fst (main fs a)) = 1"
  by (simp add: main_def exit_status_def)

theorem main_missing_directory_witness:
  "\<not> exists demo_fs [[47], pystr_of ''nowhere''] \<and>
   main demo_fs (demo_args\<lparr>input_dir := [[47], pystr_of ''nowhere''], train_pattern := []\<rparr>) =
     (Inl (SystemExit (pystr_of ''Input directory not found: /nowhere'')), demo_fs) \<and>
   exists demo_fs (demo_file ''train_0.json'') \<and>
   \<not> is_dir demo_fs (demo_file ''train_0.json'') \<and>
   main demo_fs (demo_args\<lparr>input_dir := demo_file ''train_0.json''\<rparr>) =
     (Inl (SystemExit (pystr_of ''Input directory not found: /data/train_0.json'')), demo_fs) \<and>
   exit_status (fst (main demo_fs (demo_args\<lparr>input_dir := demo_file ''train_0.json''\<rparr>))) = 1"
proof -
  have h1: "\<not> exists demo_fs [[47], pystr_of ''nowhere'']"
    by (simp add: exists_def lookup_def demo_defs)
  have h2: "exists demo_fs (demo_file ''train_0.json'') \<and> \<not> is_dir demo_fs (demo_file ''train_0.json'')"
    by (simp add: exists_def is_dir_def lookup_def demo_defs)
  show ?thesis
    using h1 h2
      main_missing_directory [of demo_fs "demo_args\<lparr>input_dir := [[47], pystr_of ''nowhere''], train_pattern := []\<rparr>"]
      main_missing_directory [of demo_fs "demo_args\<lparr>input_dir := demo_file ''train_0.json''\<rparr>"]
    by (simp add: path_str_def is_root_def demo_dir_def demo_file_def pystr_of_def exit_status_def)
qed

text \<open>
  Claim C4, as amended. \<open>main\<close> makes both selections before it looks at either. If one
  of them is empty, the run ends with exit status 1 and the file system as it was,
  whatever became of the other selection: neither merge has run. If the directory has
  passed the check and both selections returned, the run ends with \<open>SystemExit\<close> and a
  message naming the pattern that matched nothing (the train pattern first) and the
  directory. If instead \<open>glob\<close> rejected a pattern, the run ends with that exception.
\<close>

theorem main_selection_checks:
  "((train_files fs a = Inr [] \<or> test_files fs a = Inr []) \<longrightarrow>
      snd (main fs a) = fs \<and> exit_status (fst (main fs a)) = 1) \<and>
   (is_dir fs (input_dir a) \<and> train_files fs a = Inr trains \<and> test_files fs a = Inr tests \<and>
    (trains = [] \<or> tests = []) \<longrightarrow>
      main fs a =
        (Inl (SystemExit
           (if trains = [] then no_files_message ''train'' (train_pattern a) (input_dir a)
            else no_files_message ''test'' (test_pattern a) (input_dir a))), fs)) \<and>
   (is_dir fs (input_dir a) \<and>
    (train_files fs a = Inl e \<or> train_files fs a = Inr trains \<and> test_files fs a = Inl e) \<longrightarrow>
      main fs a = (Inl e, fs))"
  by (auto simp: main_def exit_status_def exists_def is_dir_def split: sum.splits)

theorem main_selection_checks_witness:
  "is_dir demo_fs demo_dir \<and>
   train_files demo_fs (demo_args\<lparr>train_pattern := pystr_of ''*nothing*.json''\<rparr>) = Inr [] \<and>
   test_files demo_fs (demo_args\<lparr>train_pattern := pystr_of ''*nothing*.json''\<rparr>)
     = Inr [demo_file ''test_a.json''] \<and>
   main demo_fs (demo_args\<lparr>train_pattern := pystr_of ''*nothing*.json''\<rparr>) =
     (Inl (SystemExit (pystr_of ''No train files matched pattern '' @ [39] @
             pystr_of ''*nothing*.json'' @ [39] @ pystr_of '' in /data'')), demo_fs) \<and>
   test_files demo_fs (demo_args\<lparr>test_pattern := pystr_of ''*.txt''\<rparr>) = Inr [] \<and>
   main demo_fs (demo_args\<lparr>test_pattern := pystr_of ''*.txt''\<rparr>) =
     (Inl (SystemExit (pystr_of ''No test files matched pattern '' @ [39] @
             pystr_of ''*.txt'' @ [39] @ pystr_of '' in /data'')), demo_fs) \<and>
   train_files demo_fs (demo_args\<lparr>train_pattern := pystr_of ''*nothing*.json'', test_pattern := []\<rparr>)
     = Inr [] \<and>
   test_files demo_fs (demo_args\<lparr>train_pattern := pystr_of ''*nothing*.json'', test_pattern := []\<rparr>)
     = Inl (ValueError []) \<and>
   main demo_fs (demo_args\<lparr>train_pattern := pystr_of ''*nothing*.json'', test_pattern := []\<rparr>)
     = (Inl (ValueError []), demo_fs) \<and>
   snd (main demo_fs (demo_args\<lparr>train_pattern := pystr_of ''*nothing*.json'', test_pattern := []\<rparr>))
     = demo_fs \<and>
   exit_status (fst (main demo_fs
       (demo_args\<lparr>train_pattern := pystr_of ''*nothing*.json'', test_pattern := []\<rparr>))) = 1"
proof -
  let ?a1 = "demo_args\<lparr>train_pattern := pystr_of ''*nothing*.json''\<rparr>"
  let ?a2 = "demo_args\<lparr>test_pattern := pystr_of ''*.txt''\<rparr>"
  let ?a3 = "demo_args\<lparr>train_pattern := pystr_of ''*nothing*.json'', test_pattern := []\<rparr>"
  have d: "is_dir demo_fs demo_dir"
    by (simp add: is_dir_def lookup_def demo_defs)
  have d1: "is_dir demo_fs (input_dir ?a1)" and d2: "is_dir demo_fs (input_dir ?a2)"
    using d by (simp_all add: demo_args_def)
  have tr1: "train_files demo_fs ?a1 = Inr []"
    by (simp add: train_files_def collect_files_def demo_defs)
  have te1: "test_files demo_fs ?a1 = Inr [demo_file ''test_a.json'']"
    using demo_test_files by (simp add: test_files_def output_paths_def demo_args_def)
  have tr2: "train_files demo_fs ?a2
               = Inr [demo_file ''train_0.json'', demo_file ''train_1.json'']"
    using demo_train_files by (simp add: train_files_def output_paths_def demo_args_def)
  have te2: "test_files demo_fs ?a2 = Inr []"
    by (simp add: test_files_def collect_files_def demo_defs)
  have tr3: "train_files demo_fs ?a3 = Inr []"
    by (simp add: train_files_def collect_files_def demo_defs)
  have te3: "test_files demo_fs ?a3 = Inl (ValueError [])"
    by (simp add: test_files_def collect_files_def demo_defs)
  have d3: "is_dir demo_fs (input_dir ?a3)"
    using d by (simp add: demo_args_def)
  have m1: "no_files_message ''train'' (train_pattern ?a1) (input_dir ?a1) =
      pystr_of ''No train files matched pattern '' @ [39] @
             pystr_of ''*nothing*.json'' @ [39] @ pystr_of '' in /data''"
    by (simp add: no_files_message_def path_str_def is_root_def demo_defs)
  have m2: "no_files_message ''test'' (test_pattern ?a2) (input_dir ?a2) =
      pystr_of ''No test files matched pattern '' @ [39] @
             pystr_of ''*.txt'' @ [39] @ pystr_of '' in /data''"
    by (simp add: no_files_message_def path_str_def is_root_def demo_defs)
  have c1: "main demo_fs ?a1 =
        (Inl (SystemExit (no_files_message ''train'' (train_pattern ?a1) (input_dir ?a1))), demo_fs)"
    using main_selection_checks [of demo_fs ?a1 "[]" "[demo_file ''test_a.json'']"] d1 tr1 te1
    by simp
  have c2: "main demo_fs ?a2 =
        (Inl (SystemExit (no_files_message ''test'' (test_pattern ?a2) (input_dir ?a2))), demo_fs)"
    using main_selection_checks
            [of demo_fs ?a2 "[demo_file ''train_0.json'', demo_file ''train_1.json'']" "[]"]
          d2 tr2 te2
    by simp
  have c3: "snd (main demo_fs ?a3) = demo_fs \<and> exit_status (fst (main demo_fs ?a3)) = 1"
    using main_selection_checks [of demo_fs ?a3] tr3 by blast
  have c4: "main demo_fs ?a3 = (Inl (ValueError []), demo_fs)"
    using main_selection_checks [of demo_fs ?a3 "[]" _ "ValueError []"] d3 tr3 te3 by blast
  show ?thesis
    using d tr1 te1 te2 tr3 te3 c1 c2 c3 c4 m1 m2 by simp
qed

text \<open>
  Claim C4, as stated, fails when the train pattern matches nothing and \<open>glob\<close> rejects
  the test pattern (here the empty pattern): the test selection raises before the train
  selection is looked at, and the run ends with that exception, not with the message
  naming the train pattern.
\<close>

theorem main_selection_checks_counterexample:
  "is_dir demo_fs demo_dir \<and>
   train_files demo_fs (demo_args\<lparr>train_pattern := pystr_of ''*nothing*.json'', test_pattern := []\<rparr>)
     = Inr [] \<and>
   main demo_fs (demo_args\<lparr>train_pattern := pystr_of ''*nothing*.json'', test_pattern := []\<rparr>)
     = (Inl (ValueError []), demo_fs) \<and>
   fst (main demo_fs (demo_args\<lparr>train_pattern := pystr_of ''*nothing*.json'', test_pattern := []\<rparr>))
     \<noteq> Inl (SystemExit (no_files_message ''train'' (pystr_of ''*nothing*.json'') demo_dir))"
proof -
  let ?a3 = "demo_args\<lparr>train_pattern := pystr_of ''*nothing*.json'', test_pattern := []\<rparr>"
  have d: "is_dir demo_fs demo_dir"
    by (simp add: is_dir_def lookup_def demo_defs)
  have tr3: "train_files demo_fs ?a3 = Inr []"
    by (simp add: train_files_def collect_files_def demo_defs)
  have te3: "test_files demo_fs ?a3 = Inl (ValueError [])"
    by (simp add: test_files_def collect_files_def demo_defs)
  have "main demo_fs ?a3 = (Inl (ValueError []), demo_fs)"
    using d tr3 te3 by (simp add: main_def exists_def is_dir_def demo_args_def)
  then show ?thesis using d tr3 by simp
qed

section \<open>Properties of strip and of line iteration\<close>

lemma isspace_10 [simp]: "isspace 10"
  by (simp add: isspace_def)

lemma strip_Nil [simp]: "strip [] = []"
  by (simp add: strip_def)













section \<open>The loops of merge\_jsonl\<close>






lemma spec_merged_text_append:
  "spec_merged_text (xs @ ys) = spec_merged_text xs @ spec_merged_text ys"
  by (simp add: spec_merged_text_def spec_merged_lines_def)

lemma spec_merged_text_Cons:
  "spec_merged_text (l # ls) =
     (if strip l = [] then spec_merged_text ls else strip l @ [10] @ spec_merged_text ls)"
  by (simp add: spec_merged_text_def spec_merged_lines_def nonblank_def)

lemma merge_lines_eq:
  "merge_lines ls (w, n) =
     (w\<lparr>w_pending := w_pending w @ spec_merged_text ls\<rparr>, n + length (filter nonblank ls))"
proof (induction ls arbitrary: w n)
  case Nil
  then show ?case by (simp add: spec_merged_text_def spec_merged_lines_def)
next
  case (Cons l ls)
  then show ?case
    by (simp add: Let_def spec_merged_text_Cons nonblank_def writer_write_def)
qed

lemma merge_files_ok:
  "\<forall>f \<in> set files. \<exists>c. open_r fs f = Inr c \<Longrightarrow>
   merge_files fs files (w, n) =
     (None, w\<lparr>w_pending := w_pending w @ spec_merged_text (input_lines fs files)\<rparr>,
      n + length (filter nonblank (input_lines fs files)))"
proof (induction files arbitrary: w n)
  case Nil
  then show ?case by (simp add: input_lines_def spec_merged_text_def spec_merged_lines_def)
next
  case (Cons f files)
  then obtain c where c: "open_r fs f = Inr c" by auto
  have il: "input_lines fs (f # files) = text_lines c @ input_lines fs files"
    using c by (simp add: input_lines_def file_lines_def)
  show ?case
    using Cons c by (simp add: il merge_lines_eq spec_merged_text_append)
qed

lemma merge_files_None:
  "merge_files fs files st = (None, st') \<Longrightarrow> \<forall>f \<in> set files. \<exists>c. open_r fs f = Inr c"
proof (induction files arbitrary: st)
  case Nil
  then show ?case by simp
next
  case (Cons f files)
  then show ?case by (cases "open_r fs f") auto
qed

section \<open>Directories, the store and a run of merge\_jsonl\<close>

lemma lookup_store:
  "lookup (store fs p n) q = (if fs_resolve fs q = fs_resolve fs p then Some n else lookup fs q)"
  by (simp add: lookup_def store_def)

lemma resolve_store [simp]: "fs_resolve (store fs p n) = fs_resolve fs"
  by (simp add: store_def)

lemma glob_store [simp]: "fs_glob (store fs p n) = fs_glob fs"
  by (simp add: store_def)

lemma os_mkdir_Inr:
  "os_mkdir fs p = Inr fs' \<Longrightarrow>
     lookup fs p = None \<and> lookup fs (parent p) = Some Directory \<and> fs' = store fs p Directory"
  by (auto simp: os_mkdir_def split: if_splits option.splits node.splits)

text \<open>mkdir only adds directories, at names that were free.\<close>

lemma mkdir_p_grows:
  "mkdir_p fs p = (r, fs') \<Longrightarrow>
     fs_resolve fs' = fs_resolve fs \<and> fs_glob fs' = fs_glob fs \<and>
     (\<forall>k. fs_nodes fs' k = fs_nodes fs k \<or>
          (fs_nodes fs k = None \<and> fs_nodes fs' k = Some Directory))"
proof (induction fs p arbitrary: r fs' rule: mkdir_p.induct)
  case (1 fs p)
  show ?case
  proof (cases "os_mkdir fs p")
    case (Inr fs0)
    with "1.prems" have "fs' = fs0" by (simp add: mkdir_p.simps)
    with os_mkdir_Inr [OF Inr] show ?thesis
      by (auto simp: store_def lookup_def)
  next
    case (Inl e)
    show ?thesis
    proof (cases "is_FileNotFoundError e \<and> parent p \<noteq> p")
      case False
      with Inl "1.prems" have "fs' = fs"
        by (auto simp: mkdir_p.simps split: if_splits)
      then show ?thesis by simp
    next
      case True
      obtain r1 fs1 where m: "mkdir_p fs (parent p) = (r1, fs1)" by (cases "mkdir_p fs (parent p)")
      from "1.IH" [OF Inl _ _ m] True
      have g1: "fs_resolve fs1 = fs_resolve fs \<and> fs_glob fs1 = fs_glob fs \<and>
        (\<forall>k. fs_nodes fs1 k = fs_nodes fs k \<or>
          (fs_nodes fs k = None \<and> fs_nodes fs1 k = Some Directory))" by simp
      show ?thesis
      proof (cases r1)
        case (Some e1)
        with Inl True m "1.prems" have "fs' = fs1" by (simp add: mkdir_p.simps)
        with g1 show ?thesis by simp
      next
        case None
        show ?thesis
        proof (cases "os_mkdir fs1 p")
          case (Inr fs2)
          with None Inl True m "1.prems" have "fs' = fs2" by (simp add: mkdir_p.simps)
          with os_mkdir_Inr [OF Inr] have
            "fs' = store fs1 p Directory" "lookup fs1 p = None" by simp_all
          with g1 show ?thesis
            apply (simp add: store_def lookup_def)
            by (metis option.distinct(1))
        next
          case Inl2: (Inl e2)
          with None Inl True m "1.prems" have "fs' = fs1"
            by (simp add: mkdir_p.simps split: if_splits)
          with g1 show ?thesis by simp
        qed
      qed
    qed
  qed
qed


lemma mkdir_p_lookup:
  assumes "mkdir_p fs p = (r, fs')"
  shows "lookup fs' q = lookup fs q \<or> (lookup fs q = None \<and> lookup fs' q = Some Directory)"
  using mkdir_p_grows [OF assms] by (simp add: lookup_def)

lemma open_w_Inr:
  assumes "open_w fs p = Inr (fs2, w)"
  shows "w = \<lparr>w_path = p, w_pending = []\<rparr> \<and> lookup fs p \<noteq> Some Directory \<and>
         (if \<exists>s. lookup fs p = Some (Special s) then fs2 = fs else fs2 = store fs p (Regular []))"
  using assms
  by (auto simp: open_w_def split: option.splits node.splits)

lemma input_lines_cong:
  "\<forall>f \<in> set files. open_r A f = open_r B f \<Longrightarrow> input_lines A files = input_lines B files"
  by (simp add: input_lines_def file_lines_def cong: map_cong)

lemma open_r_store_other:
  "fs_resolve fs f \<noteq> fs_resolve fs p \<Longrightarrow> open_r (store fs p n) f = open_r fs f"
  by (simp add: open_r_def lookup_store)

lemma input_lines_store_other:
  "\<forall>f \<in> set files. fs_resolve fs f \<noteq> fs_resolve fs p \<Longrightarrow>
   input_lines (store fs p n) files = input_lines fs files"
  by (rule input_lines_cong) (simp add: open_r_store_other)

text \<open>The steps of a run that returned.\<close>

lemma merge_jsonl_session:
  assumes run: "merge_jsonl fs files out = (Inr n, fs')"
  shows "\<exists>fs1 fs2.
           mkdir_p fs (parent out) = (None, fs1) \<and>
           open_w fs1 out = Inr (fs2, \<lparr>w_path = out, w_pending = []\<rparr>) \<and>
           (\<forall>f \<in> set files. \<exists>c. open_r fs2 f = Inr c) \<and>
           n = length (filter nonblank (input_lines fs2 files)) \<and>
           fs' = close_w fs2 \<lparr>w_path = out, w_pending = spec_merged_text (input_lines fs2 files)\<rparr>"
proof -
  obtain r1 fs1 where mk: "mkdir_p fs (parent out) = (r1, fs1)"
    by (cases "mkdir_p fs (parent out)")
  from run mk have r1: "r1 = None"
    by (cases r1) (auto simp: merge_jsonl_def)
  from run mk r1 obtain fs2 w where op: "open_w fs1 out = Inr (fs2, w)"
    by (cases "open_w fs1 out") (auto simp: merge_jsonl_def)
  obtain r2 w' n' where mf: "merge_files fs2 files (w, 0) = (r2, w', n')"
    by (cases "merge_files fs2 files (w, 0)")
  from run mk r1 op mf have r2: "r2 = None" and n': "n' = n" and fs': "fs' = close_w fs2 w'"
    by (cases r2; simp add: merge_jsonl_def)+
  have w: "w = \<lparr>w_path = out, w_pending = []\<rparr>"
    using open_w_Inr [OF op] by simp
  have opened: "\<forall>f \<in> set files. \<exists>c. open_r fs2 f = Inr c"
    using merge_files_None mf r2 by blast
  from merge_files_ok [OF opened, of w 0] mf w
  have "w' = \<lparr>w_path = out, w_pending = spec_merged_text (input_lines fs2 files)\<rparr>"
    and "n' = length (filter nonblank (input_lines fs2 files))" by simp_all
  with mk r1 op w opened n' fs' show ?thesis by blast
qed

text \<open>
  During a run, a file that is not the output file and can be opened has the text it had
  before the run.
\<close>

lemma session_read:
  assumes mk: "mkdir_p fs p = (r, fs1)" and op: "open_w fs1 out = Inr (fs2, w)"
    and c: "open_r fs2 f = Inr c" and other: "fs_resolve fs f \<noteq> fs_resolve fs out"
  shows "open_r fs f = Inr c"
proof -
  have res: "fs_resolve fs1 = fs_resolve fs"
    using mkdir_p_grows [OF mk] by simp
  have "open_r fs2 f = open_r fs1 f"
    using open_w_Inr [OF op] other res
    by (auto simp: open_r_store_other split: if_splits)
  with c have c1: "open_r fs1 f = Inr c" by simp
  then have "lookup fs1 f \<noteq> Some Directory"
    by (auto simp: open_r_def)
  with mkdir_p_lookup [OF mk, of f] have "lookup fs1 f = lookup fs f" by auto
  with c1 show ?thesis by (simp add: open_r_def)
qed


text \<open>
  A run that returned, seen from the file system it started in: the inputs are read as
  they were, except that the output file is read as empty.
\<close>

lemma merge_jsonl_result:
  assumes run: "merge_jsonl fs files out = (Inr n, fs')"
    and ns: "\<forall>s. lookup fs out \<noteq> Some (Special s)"
  shows "read_text fs' out = Some (spec_merged_text (input_lines (store fs out (Regular [])) files)) \<and>
         n = length (filter nonblank (input_lines (store fs out (Regular [])) files))"
proof -
  from merge_jsonl_session [OF run] obtain fs1 fs2 where
    mk: "mkdir_p fs (parent out) = (None, fs1)" and
    op: "open_w fs1 out = Inr (fs2, \<lparr>w_path = out, w_pending = []\<rparr>)" and
    opened: "\<forall>f \<in> set files. \<exists>c. open_r fs2 f = Inr c" and
    n: "n = length (filter nonblank (input_lines fs2 files))" and
    fs': "fs' = close_w fs2 \<lparr>w_path = out, w_pending = spec_merged_text (input_lines fs2 files)\<rparr>"
    by blast
  have res: "fs_resolve fs1 = fs_resolve fs"
    using mkdir_p_grows [OF mk] by simp
  have nd: "lookup fs1 out \<noteq> Some Directory"
    using open_w_Inr [OF op] by simp
  have l1: "lookup fs1 out = lookup fs out"
    using mkdir_p_lookup [OF mk, of out] nd by auto
  with ns open_w_Inr [OF op] have fs2: "fs2 = store fs1 out (Regular [])" by simp
  have same: "\<forall>f \<in> set files. open_r fs2 f = open_r (store fs out (Regular [])) f"
  proof
    fix f assume "f \<in> set files"
    with opened obtain c where c: "open_r fs2 f = Inr c" by blast
    show "open_r fs2 f = open_r (store fs out (Regular [])) f"
    proof (cases "fs_resolve fs f = fs_resolve fs out")
      case True
      then show ?thesis by (simp add: fs2 open_r_def lookup_store res)
    next
      case False
      with session_read [OF mk op c] c show ?thesis by (simp add: open_r_store_other)
    qed
  qed
  have il: "input_lines fs2 files = input_lines (store fs out (Regular [])) files"
    using same by (rule input_lines_cong)
  have "read_text fs' out = Some (spec_merged_text (input_lines fs2 files))"
    by (simp add: fs' close_w_def fs2 lookup_store read_text_def)
  with il n show ?thesis by simp
qed



lemma mkdir_p_one:
  "lookup fs p = None \<Longrightarrow> is_dir fs (parent p) \<Longrightarrow> mkdir_p fs p = (None, store fs p Directory)"
  by (subst mkdir_p.simps) (simp add: os_mkdir_def is_dir_def)

lemma store_store [simp]: "store (store fs p a) p b = store fs p b"
  by (simp add: store_def)










text \<open>
  The merges of \<open>main\<close> are covered: the selections it hands to \<open>merge_jsonl\<close> contain
  neither output file.
\<close>

lemma main_train_merge:
  assumes sel: "train_files fs a = Inr trains"
    and run: "merge_jsonl fs trains (output_train a) = (Inr n, fs1)"
    and ns: "\<forall>s. lookup fs (output_train a) \<noteq> Some (Special s)"
  shows "read_text fs1 (output_train a) = Some (spec_merged_text (input_lines fs trains)) \<and>
         n = length (filter nonblank (input_lines fs trains))"
proof -
  have other: "\<forall>f \<in> set trains. fs_resolve fs f \<noteq> fs_resolve fs (output_train a)"
    using sel by (auto simp: train_files_def collect_files_Inr output_paths_def)
  from input_lines_store_other [OF other] merge_jsonl_result [OF run ns]
  show ?thesis by simp
qed

section \<open>Runs on the example file system\<close>










section \<open>Properties of merge\_jsonl\<close>












end
